theory Spec2Isabelle
  imports Main "HOL-Library.Sublist"
begin

section \<open>The authentication gate of slack\_auth\_proxy (oauthserver.go)\<close>

text \<open>
  A shallow embedding of \<^verbatim>\<open>src/oauthserver.go\<close>. A handler of the source writes to an
  \<^verbatim>\<open>http.ResponseWriter\<close> and calls collaborators (the OAuth client, the Slack client, the
  cookie codec, the validator, the reverse proxy); the model returns the list of these
  calls in program order, the handler's trace. What the collaborators answer (the Go
  standard library, gorilla/securecookie, the slack package, the templates) is a parameter
  of the model: a field of the server or of the environment record. Calls to
  \<^verbatim>\<open>log.Printf\<close> are left out of the trace; \<^verbatim>\<open>log.Fatalf\<close> and a panic end the
  construction of the server with an \<open>Abort\<close>.
\<close>

subsection \<open>Constants (lines 16-21)\<close>

definition signInPath :: string where
  "signInPath = ''/oauth2/sign_in''"

definition oauthStartPath :: string where
  "oauthStartPath = ''/oauth2/start''"

definition oauthCallbackPath :: string where
  "oauthCallbackPath = ''/oauth2/callback''"

definition staticDir :: string where
  "staticDir = ''/_slackproxy''"

subsection \<open>Data\<close>

text \<open>\<^verbatim>\<open>url.URL\<close>, the fields an upstream's target has.\<close>

record URL =
  Scheme :: string
  Authority :: string
  Path :: string

text \<open>
  Modelled from the spec: the type \<^verbatim>\<open>UpstreamConfiguration\<close> is declared outside
  \<^verbatim>\<open>src/\<close>. The source reads its field \<^verbatim>\<open>HostURL\<close> (a \<^verbatim>\<open>*url.URL\<close>, whose path is the
  mount path); the access policy is the spec's opaque configuration for the validator.
\<close>

record UpstreamConfiguration =
  HostURL :: URL
  accessPolicy :: "string list"

text \<open>
  Modelled from the spec: \<^verbatim>\<open>slack.Auth\<close> is declared in the imported slack package. The
  gate reads \<^verbatim>\<open>Username\<close> only; the other fields are the spec's Identity. The zero value
  is what \<^verbatim>\<open>new(slack.Auth)\<close> allocates.
\<close>

record Auth =
  Url :: string
  Team :: string
  Username :: string
  TeamId :: string
  UserId :: string

definition zero_Auth :: Auth where
  "zero_Auth = \<lparr>Url = [], Team = [], Username = [], TeamId = [], UserId = []\<rparr>"

text \<open>
  \<^verbatim>\<open>http.Cookie\<close>, the fields \<^verbatim>\<open>SetCookie\<close> and \<^verbatim>\<open>ClearCookie\<close> set. A time is a number of
  nanoseconds since the epoch and a \<^verbatim>\<open>time.Duration\<close> a number of nanoseconds.
\<close>

record Cookie =
  Name :: string
  Value :: string
  CookiePath :: string
  Domain :: string
  Expires :: int
  HttpOnly :: bool

definition Hour :: int where
  "Hour = 3600 * 1000000000"

text \<open>
  The request, as far as the gate reads it. \<^verbatim>\<open>ParseForm\<close> of net/http stores the pairs it
  could parse in \<^verbatim>\<open>Form\<close> and returns the first error it met, so both are fields:
  \<open>ParseForm_err\<close> is the error \<^verbatim>\<open>req.ParseForm()\<close> returns and \<open>Form\<close> the values it leaves.
\<close>

record Request =
  Method :: string
  URL_Path :: string
  URL_RequestURI :: string
  Host :: string
  Cookies :: "(string \<times> string) list"
  ParseForm_err :: "string option"
  Form :: "string \<rightharpoonup> string list"

text \<open>The handler the mux resolves a request to.\<close>

datatype Handler =
    ReverseProxy URL
  | NotFoundHandler
  | RedirectHandler string

text \<open>The data of the two templates: (Title, Redirect) and (Title, Message).\<close>

datatype TemplateData =
    SignInData string string
  | ErrorData string string

text \<open>The calls a handler makes, in program order.\<close>

datatype Effect =
    SetCookieHeader Cookie
  | WriteHeader int
  | Render string TemplateData
  | HttpError string int
  | HttpRedirect string int
  | HttpNotFound
  | StaticServe string
  | Forward Handler
  | Exchange string
  | IdentityLookup string
  | Validate Auth UpstreamConfiguration

text \<open>
  The collaborators. \<^verbatim>\<open>RedeemCode\<close> and \<^verbatim>\<open>Auth.Test\<close> return an error (\<open>Inl\<close>) or a value.
  \<^verbatim>\<open>Encode\<close> returns the pair (value, error) of the Go call, since the source goes on to
  use the value. \<^verbatim>\<open>Decode\<close> takes the destination as it is before the call and returns it
  as it is after, with the error.
\<close>

record OAuthAccess =
  Token :: string

record OAuthClient =
  LoginUrl :: "string \<Rightarrow> string"
  RedeemCode :: "string \<Rightarrow> string + OAuthAccess"

record SecureCookie =
  Encode :: "string \<Rightarrow> Auth \<Rightarrow> string \<times> string option"
  Decode :: "string \<Rightarrow> string \<Rightarrow> Auth \<Rightarrow> Auth \<times> string option"

record Configuration =
  Upstreams :: "UpstreamConfiguration list"
  CookieHashKey :: string
  CookieBlockKey :: string
  CookieDomain :: string

text \<open>
  \<^verbatim>\<open>OAuthServer\<close> (lines 27-39). \<open>serveMux\<close> is the mux as its method \<^verbatim>\<open>Handler\<close>: the
  handler and the pattern it resolves a request to. The static handler has no field: a
  call of it is the effect \<open>StaticServe\<close>.
\<close>

record OAuthServer =
  CookieKey :: string
  Validator :: "Auth \<Rightarrow> UpstreamConfiguration \<Rightarrow> bool"
  slackOauth :: OAuthClient
  serveMux :: "Request \<Rightarrow> Handler \<times> string"
  secureCookie :: SecureCookie
  upstreamsConfig :: "string \<rightharpoonup> UpstreamConfiguration"
  config :: Configuration

text \<open>
  What a request finds outside the server: the clock, the Slack identity endpoint
  (\<^verbatim>\<open>slack.NewClient(token).Auth.Test()\<close>) and the templates, whose execution returns an
  error or none.
\<close>

record Env =
  time_Now :: int
  Auth_Test :: "string \<Rightarrow> string + Auth"
  ExecuteTemplate :: "string \<Rightarrow> TemplateData \<Rightarrow> string option"

subsection \<open>Library functions of Go the source calls\<close>

text \<open>\<^verbatim>\<open>strings.Split(s, sep)\<close> for a separator of one byte.\<close>

fun strings_Split :: "string \<Rightarrow> char \<Rightarrow> string list" where
  "strings_Split [] sep = [[]]"
| "strings_Split (c # cs) sep =
     (if c = sep then [] # strings_Split cs sep
      else (case strings_Split cs sep of
              [] \<Rightarrow> [[c]]
            | x # xs \<Rightarrow> (c # x) # xs))"

text \<open>\<^verbatim>\<open>strings.TrimPrefix\<close>.\<close>

definition strings_TrimPrefix :: "string \<Rightarrow> string \<Rightarrow> string" where
  "strings_TrimPrefix s p = (if prefix p s then drop (length p) s else s)"

text \<open>\<^verbatim>\<open>strings.Replace(s, old, new, 1)\<close> for a non-empty \<open>old\<close>: the first occurrence.\<close>

fun strings_Replace1 :: "string \<Rightarrow> string \<Rightarrow> string \<Rightarrow> string" where
  "strings_Replace1 [] old new = []"
| "strings_Replace1 (c # cs) old new =
     (if prefix old (c # cs) then new @ drop (length old) (c # cs)
      else c # strings_Replace1 cs old new)"

text \<open>\<^verbatim>\<open>fmt.Sprintf("%d", n)\<close>.\<close>

fun itoa_nat :: "nat \<Rightarrow> string" where
  "itoa_nat n =
     (if n < 10 then [''0123456789'' ! n]
      else itoa_nat (n div 10) @ [''0123456789'' ! (n mod 10)])"

declare itoa_nat.simps [simp del]

definition itoa :: "int \<Rightarrow> string" where
  "itoa i = (if i < 0 then CHR ''-'' # itoa_nat (nat (- i)) else itoa_nat (nat i))"

text \<open>\<^verbatim>\<open>url.Values.Get\<close> and, once the form is parsed, \<^verbatim>\<open>Request.FormValue\<close>.\<close>

definition Form_Get :: "(string \<rightharpoonup> string list) \<Rightarrow> string \<Rightarrow> string" where
  "Form_Get vs key = (case vs key of Some (v # _) \<Rightarrow> v | _ \<Rightarrow> [])"

definition FormValue :: "Request \<Rightarrow> string \<Rightarrow> string" where
  "FormValue req key = Form_Get (Form req) key"

text \<open>
  \<^verbatim>\<open>Request.Cookie(name)\<close>: the value of the first cookie of that name, if any; no cookie
  has the empty name.
\<close>

definition req_Cookie :: "Request \<Rightarrow> string \<Rightarrow> string option" where
  "req_Cookie req name =
     (if name = [] then None
      else map_option snd (find (\<lambda>c. fst c = name) (Cookies req)))"

subsection \<open>Cookies (lines 248-288)\<close>

definition getCookieDomain :: "OAuthServer \<Rightarrow> Request \<Rightarrow> string" where
  "getCookieDomain s req =
     (let domain = hd (strings_Split (Host req) CHR '':'')
      in if CookieDomain (config s) \<noteq> [] \<and> suffix (CookieDomain (config s)) domain
         then CookieDomain (config s)
         else domain)"

definition SetCookie :: "OAuthServer \<Rightarrow> Env \<Rightarrow> Request \<Rightarrow> string \<Rightarrow> Effect list" where
  "SetCookie s w req val =
     [SetCookieHeader
        \<lparr>Name = CookieKey s,
         Value = val,
         CookiePath = ''/'',
         Domain = getCookieDomain s req,
         Expires = time_Now w + 168 * Hour,
         HttpOnly = True\<rparr>]"

definition ClearCookie :: "OAuthServer \<Rightarrow> Env \<Rightarrow> Request \<Rightarrow> Effect list" where
  "ClearCookie s w req =
     [SetCookieHeader
        \<lparr>Name = CookieKey s,
         Value = [],
         CookiePath = ''/'',
         Domain = getCookieDomain s req,
         Expires = time_Now w + 1 * Hour * (- 1),
         HttpOnly = True\<rparr>]"

subsection \<open>Pages (lines 234-246, 274-279)\<close>

definition renderTemplate :: "Env \<Rightarrow> string \<Rightarrow> TemplateData \<Rightarrow> Effect list" where
  "renderTemplate w tmpl data =
     Render (tmpl @ ''.html'') data #
     (case ExecuteTemplate w (tmpl @ ''.html'') data of
        Some err \<Rightarrow> [HttpError err 500]
      | None \<Rightarrow> [])"

definition ErrorPage :: "Env \<Rightarrow> int \<Rightarrow> string \<Rightarrow> string \<Rightarrow> Effect list" where
  "ErrorPage w code title message =
     WriteHeader code #
     renderTemplate w ''error'' (ErrorData (itoa code @ '' '' @ title) message)"

subsection \<open>The sign-in and OAuth handlers (lines 146-232)\<close>

definition GetRedirect :: "Request \<Rightarrow> string \<times> string option" where
  "GetRedirect req =
     (case ParseForm_err req of
        Some err \<Rightarrow> ([], Some err)
      | None \<Rightarrow>
          (let redirect = FormValue req ''rd''
           in (if redirect = [] \<or> redirect = signInPath then ''/'' else redirect, None)))"

definition handleSignIn :: "OAuthServer \<Rightarrow> Env \<Rightarrow> Request \<Rightarrow> Effect list" where
  "handleSignIn s w req =
     ClearCookie s w req @
     renderTemplate w ''sign_in'' (SignInData ''Sign in'' (URL_RequestURI req))"

definition handleOAuthStart :: "OAuthServer \<Rightarrow> Env \<Rightarrow> Request \<Rightarrow> Effect list" where
  "handleOAuthStart s w req =
     (case GetRedirect req of
        (redirect, Some err) \<Rightarrow> ErrorPage w 500 ''Internal Error'' err
      | (redirect, None) \<Rightarrow> [HttpRedirect (LoginUrl (slackOauth s) redirect) 302])"

text \<open>
  The callback. After a failed \<^verbatim>\<open>Encode\<close> the source renders the error page and, having
  no \<^verbatim>\<open>return\<close> there (lines 218-221), goes on to line 223: the model appends the rest.
\<close>

definition handleOAuthCallback :: "OAuthServer \<Rightarrow> Env \<Rightarrow> Request \<Rightarrow> Effect list" where
  "handleOAuthCallback s w req =
     (case ParseForm_err req of
        Some err \<Rightarrow> ErrorPage w 500 ''Internal Error'' err
      | None \<Rightarrow>
          (let errorString = Form_Get (Form req) ''error''
           in if errorString \<noteq> [] then ErrorPage w 403 ''Permission Denied'' errorString
              else
                Exchange (Form_Get (Form req) ''code'') #
                (case RedeemCode (slackOauth s) (Form_Get (Form req) ''code'') of
                   Inl err \<Rightarrow> ErrorPage w 500 ''Internal Error'' err
                 | Inr access \<Rightarrow>
                     IdentityLookup (Token access) #
                     (case Auth_Test w (Token access) of
                        Inl err \<Rightarrow> ErrorPage w 500 ''Internal Error'' err
                      | Inr auth \<Rightarrow>
                          (case Encode (secureCookie s) (CookieKey s) auth of
                             (encoded, err) \<Rightarrow>
                               (case err of
                                  Some e \<Rightarrow>
                                    ErrorPage w 500 ''Internal Error''
                                      ''Error encoding auth cookie''
                                | None \<Rightarrow> []) @
                               (let redirect = Form_Get (Form req) ''state'';
                                    redirect = (if redirect = [] then ''/'' else redirect)
                                in SetCookie s w req encoded @
                                   [HttpRedirect redirect 302]))))))"

subsection \<open>The gate (lines 86-144)\<close>

text \<open>
  Lines 126-143, once the upstream is resolved: \<open>ok\<close> starts false, a cookie of the
  server's name is decoded into a fresh \<^verbatim>\<open>slack.Auth\<close> (the error of \<^verbatim>\<open>Decode\<close> is dropped)
  and the validator decides.
\<close>

definition gate :: "OAuthServer \<Rightarrow> Env \<Rightarrow> Request \<Rightarrow> Handler \<Rightarrow> UpstreamConfiguration \<Rightarrow> Effect list" where
  "gate s w req handler upstreamConfig =
     (case (case req_Cookie req (CookieKey s) of
              None \<Rightarrow> ([], False)
            | Some v \<Rightarrow>
                (let auth = fst (Decode (secureCookie s) (CookieKey s) v zero_Auth)
                 in ([Validate auth upstreamConfig], Validator s auth upstreamConfig))) of
        (calls, ok) \<Rightarrow>
          calls @ (if \<not> ok then handleSignIn s w req else [Forward handler]))"

definition ServeHTTP :: "OAuthServer \<Rightarrow> Env \<Rightarrow> Request \<Rightarrow> Effect list" where
  "ServeHTTP s w req =
     (let reqPath = URL_Path req
      in if reqPath = signInPath then handleSignIn s w req
         else if reqPath = oauthStartPath then handleOAuthStart s w req
         else if reqPath = oauthCallbackPath then handleOAuthCallback s w req
         else if prefix staticDir reqPath
         then [StaticServe (strings_Replace1 reqPath staticDir [])]
         else
           (case serveMux s req of
              (handler, pattern) \<Rightarrow>
                (case (case upstreamsConfig s pattern of
                         None \<Rightarrow> upstreamsConfig s (strings_TrimPrefix pattern ''/'')
                       | Some u \<Rightarrow> Some u) of
                   None \<Rightarrow> [HttpNotFound]
                 | Some upstreamConfig \<Rightarrow> gate s w req handler upstreamConfig)))"

subsection \<open>Construction (lines 41-84)\<close>

text \<open>How the construction ends when it does not return: \<^verbatim>\<open>log.Fatalf\<close> or a panic.\<close>

datatype Abort =
    Fatal string
  | Panic string

text \<open>
  The library the constructor calls: \<^verbatim>\<open>base64.StdEncoding.DecodeString\<close>,
  \<^verbatim>\<open>securecookie.New\<close>, the lookup of a mux with the given registrations, and
  \<^verbatim>\<open>NewValidator\<close>, which this repository defines outside \<^verbatim>\<open>src/\<close>.
\<close>

record Lib =
  base64_DecodeString :: "string \<Rightarrow> string + string"
  securecookie_New :: "string \<Rightarrow> string \<Rightarrow> SecureCookie"
  ServeMux_Handler :: "(string \<times> Handler) list \<Rightarrow> Request \<Rightarrow> Handler \<times> string"
  NewValidator :: "Auth \<Rightarrow> UpstreamConfiguration \<Rightarrow> bool"

text \<open>
  The loop of lines 45-58 over the upstreams, on the registrations of the mux and the
  path map. \<^verbatim>\<open>u\<close> is the upstream's own \<^verbatim>\<open>*url.URL\<close>, so clearing its path clears it in
  the upstream the map keeps. \<^verbatim>\<open>ServeMux.Handle\<close> panics on a pattern registered twice.
\<close>

fun register_upstreams ::
  "UpstreamConfiguration list \<Rightarrow> (string \<times> Handler) list \<times> (string \<rightharpoonup> UpstreamConfiguration) \<Rightarrow>
   Abort + (string \<times> Handler) list \<times> (string \<rightharpoonup> UpstreamConfiguration)" where
  "register_upstreams [] st = Inr st"
| "register_upstreams (upstream # rest) (entries, upstreamsPathMap) =
     (let path = URL.Path (HostURL upstream);
          u = (HostURL upstream)\<lparr>URL.Path := []\<rparr>;
          path = (if path = [] then ''/'' else path)
      in if path \<in> set (map fst entries)
         then Inl (Panic (''http: multiple registrations for '' @ path))
         else register_upstreams rest
                (entries @ [(path, ReverseProxy u)],
                 upstreamsPathMap(path \<mapsto> upstream\<lparr>HostURL := u\<rparr>)))"

definition decode64 :: "Lib \<Rightarrow> string \<Rightarrow> string \<Rightarrow> Abort + string" where
  "decode64 lib name s =
     (case base64_DecodeString lib s of
        Inl err \<Rightarrow> Inl (Fatal (''Could not decode '' @ name @ '' key: '' @ err))
      | Inr bs \<Rightarrow> Inr bs)"

definition NewOauthServer :: "Lib \<Rightarrow> OAuthClient \<Rightarrow> Configuration \<Rightarrow> Abort + OAuthServer" where
  "NewOauthServer lib oauthClient cfg =
     (case register_upstreams (Upstreams cfg) ([], Map.empty) of
        Inl a \<Rightarrow> Inl a
      | Inr (entries, upstreamsPathMap) \<Rightarrow>
          (case decode64 lib ''cookie_hash_key'' (CookieHashKey cfg) of
             Inl a \<Rightarrow> Inl a
           | Inr hashKey \<Rightarrow>
               (case decode64 lib ''cookie_block_key'' (CookieBlockKey cfg) of
                  Inl a \<Rightarrow> Inl a
                | Inr blockKey \<Rightarrow>
                    Inr \<lparr>CookieKey = ''_slackauthproxy'',
                         Validator = NewValidator lib,
                         slackOauth = oauthClient,
                         serveMux = ServeMux_Handler lib entries,
                         secureCookie = securecookie_New lib hashKey blockKey,
                         upstreamsConfig = upstreamsPathMap,
                         config = cfg\<lparr>Upstreams :=
                           map (\<lambda>up. up\<lparr>HostURL := (HostURL up)\<lparr>URL.Path := []\<rparr>\<rparr>)
                             (Upstreams cfg)\<rparr>\<rparr>)))"


subsection \<open>Vocabulary of the properties\<close>

text \<open>
  The control paths, which \<^verbatim>\<open>ServeHTTP\<close> dispatches before it consults the mux
  (lines 98-111).
\<close>

definition control_path :: "string \<Rightarrow> bool" where
  "control_path p =
     (p = signInPath \<or> p = oauthStartPath \<or> p = oauthCallbackPath \<or> prefix staticDir p)"

text \<open>The cookie \<^verbatim>\<open>ClearCookie\<close> issues: no value, expired an hour ago.\<close>

definition cleared_cookie :: "OAuthServer \<Rightarrow> Env \<Rightarrow> Request \<Rightarrow> Cookie" where
  "cleared_cookie s w req =
     \<lparr>Name = CookieKey s, Value = [], CookiePath = ''/'', Domain = getCookieDomain s req,
      Expires = time_Now w - Hour, HttpOnly = True\<rparr>"

text \<open>
  A same-origin path, in the spec's words a redirect target that is "never an absolute
  external URL": it starts with one slash, so it has neither a scheme nor, as
  \<^verbatim>\<open>//host\<close> would, an authority.
\<close>

definition same_origin_path :: "string \<Rightarrow> bool" where
  "same_origin_path t =
     (case t of
        [] \<Rightarrow> False
      | c # rest \<Rightarrow> c = CHR ''/'' \<and> (case rest of [] \<Rightarrow> True | d # _ \<Rightarrow> d \<noteq> CHR ''/''))"

subsection \<open>Collaborators for the examples\<close>

text \<open>
  \<^verbatim>\<open>base64.StdEncoding.DecodeString\<close> of the Go library: the standard alphabet with
  padding, line breaks skipped, nothing after the padding.
\<close>

definition base64_alphabet :: string where
  "base64_alphabet = ''ABCDEFGHIJKLMNOPQRSTUVWXYZabcdefghijklmnopqrstuvwxyz0123456789+/''"

fun index_of :: "char \<Rightarrow> string \<Rightarrow> nat option" where
  "index_of c [] = None"
| "index_of c (x # xs) = (if c = x then Some 0 else map_option Suc (index_of c xs))"

definition sextet :: "char \<Rightarrow> nat option" where
  "sextet c = index_of c base64_alphabet"

fun decode_quanta :: "string \<Rightarrow> string + nat list" where
  "decode_quanta [] = Inr []"
| "decode_quanta (a # b # c # d # rest) =
     (if rest = [] \<and> d = CHR ''=''
      then (if c = CHR ''=''
            then (case (sextet a, sextet b) of
                    (Some x, Some y) \<Rightarrow> Inr [x * 4 + y div 16]
                  | _ \<Rightarrow> Inl ''illegal base64 data'')
            else (case (sextet a, sextet b, sextet c) of
                    (Some x, Some y, Some z) \<Rightarrow>
                      Inr [x * 4 + y div 16, (y mod 16) * 16 + z div 4]
                  | _ \<Rightarrow> Inl ''illegal base64 data''))
      else (case (sextet a, sextet b, sextet c, sextet d) of
              (Some x, Some y, Some z, Some t) \<Rightarrow>
                (case decode_quanta rest of
                   Inl e \<Rightarrow> Inl e
                 | Inr bs \<Rightarrow>
                     Inr ([x * 4 + y div 16, (y mod 16) * 16 + z div 4, (z mod 4) * 64 + t]
                          @ bs))
            | _ \<Rightarrow> Inl ''illegal base64 data''))"
| "decode_quanta _ = Inl ''illegal base64 data''"

definition StdEncoding_DecodeString :: "string \<Rightarrow> string + string" where
  "StdEncoding_DecodeString s =
     (case decode_quanta (filter (\<lambda>c. c \<noteq> CHR 0x0A \<and> c \<noteq> CHR 0x0D) s) of
        Inl e \<Rightarrow> Inl e
      | Inr bs \<Rightarrow> Inr (map char_of bs))"

text \<open>
  A stand-in for gorilla/securecookie with no cryptography: the value is the cookie's
  name and the user's name. As in the library, a block key that is not an AES key (16, 24
  or 32 bytes) makes every \<^verbatim>\<open>Encode\<close> and \<^verbatim>\<open>Decode\<close> fail, and a failed \<^verbatim>\<open>Decode\<close> leaves
  the destination as it was.
\<close>

definition aes_key_size :: "string \<Rightarrow> bool" where
  "aes_key_size k = (length k = 16 \<or> length k = 24 \<or> length k = 32)"

definition example_securecookie_New :: "string \<Rightarrow> string \<Rightarrow> SecureCookie" where
  "example_securecookie_New hashKey blockKey =
     \<lparr>Encode = (\<lambda>name auth.
        if aes_key_size blockKey then (name @ ''|'' @ Username auth, None)
        else ([], Some ''crypto/aes: invalid key size'')),
      Decode = (\<lambda>name v dst.
        if aes_key_size blockKey \<and> prefix (name @ ''|'') v
        then (dst\<lparr>Username := drop (length name + 1) v\<rparr>, None)
        else (dst, Some ''securecookie: the value is not valid''))\<rparr>"

text \<open>A mux that resolves a request to the longest registered pattern its path starts with.\<close>

definition example_ServeMux_Handler :: "(string \<times> Handler) list \<Rightarrow> Request \<Rightarrow> Handler \<times> string" where
  "example_ServeMux_Handler entries req =
     (case filter (\<lambda>e. prefix (fst e) (URL_Path req)) entries of
        [] \<Rightarrow> (NotFoundHandler, [])
      | e # es \<Rightarrow>
          (case fold (\<lambda>x best. if length (fst best) < length (fst x) then x else best) es e of
             (pattern, handler) \<Rightarrow> (handler, pattern)))"

text \<open>
  Modelled from the spec: \<^verbatim>\<open>NewValidator\<close> is defined outside \<^verbatim>\<open>src/\<close>. This validator
  follows the spec's default policy: an upstream with no restriction admits any identity,
  one with a list of user names admits those. The properties below hold for every
  validator; this one serves the examples.
\<close>

definition example_Validator :: "Auth \<Rightarrow> UpstreamConfiguration \<Rightarrow> bool" where
  "example_Validator auth upstream =
     (accessPolicy upstream = [] \<or> Username auth \<in> set (accessPolicy upstream))"

definition example_lib :: Lib where
  "example_lib =
     \<lparr>base64_DecodeString = StdEncoding_DecodeString,
      securecookie_New = example_securecookie_New,
      ServeMux_Handler = example_ServeMux_Handler,
      NewValidator = example_Validator\<rparr>"

definition example_client :: OAuthClient where
  "example_client =
     \<lparr>LoginUrl = (\<lambda>state. ''https://slack.com/oauth/authorize?state='' @ state),
      RedeemCode = (\<lambda>code. if code = ''abc'' then Inr \<lparr>Token = ''xoxp-1''\<rparr>
                            else Inl ''invalid_code'')\<rparr>"

definition alice :: Auth where
  "alice = \<lparr>Url = ''https://acme.slack.com/'', Team = ''acme'', Username = ''alice'',
            TeamId = ''T1'', UserId = ''U1''\<rparr>"

definition example_env :: Env where
  "example_env =
     \<lparr>time_Now = 1000 * Hour,
      Auth_Test = (\<lambda>token. if token = ''xoxp-1'' then Inr alice else Inl ''invalid_auth''),
      ExecuteTemplate = (\<lambda>name data. None)\<rparr>"

definition wiki_url :: URL where
  "wiki_url = \<lparr>Scheme = ''http'', Authority = ''10.0.0.5:8080'', Path = ''/wiki/''\<rparr>"

definition admin_url :: URL where
  "admin_url = \<lparr>Scheme = ''http'', Authority = ''10.0.0.6:8080'', Path = ''/admin/''\<rparr>"

definition example_config :: Configuration where
  "example_config =
     \<lparr>Upstreams = [\<lparr>HostURL = wiki_url, accessPolicy = []\<rparr>,
                   \<lparr>HostURL = admin_url, accessPolicy = [''alice'']\<rparr>],
      CookieHashKey = ''aGFzaGtleQ=='',
      CookieBlockKey = ''YmxvY2trZXkxMjM0NTY3OA=='',
      CookieDomain = ''example.com''\<rparr>"

text \<open>The upstreams as the constructor keeps them, the path of the target cleared.\<close>

definition wiki_upstream :: UpstreamConfiguration where
  "wiki_upstream = \<lparr>HostURL = wiki_url\<lparr>URL.Path := []\<rparr>, accessPolicy = []\<rparr>"

definition admin_upstream :: UpstreamConfiguration where
  "admin_upstream = \<lparr>HostURL = admin_url\<lparr>URL.Path := []\<rparr>, accessPolicy = [''alice'']\<rparr>"

definition example_server :: OAuthServer where
  "example_server =
     \<lparr>CookieKey = ''_slackauthproxy'',
      Validator = example_Validator,
      slackOauth = example_client,
      serveMux = example_ServeMux_Handler
        [(''/wiki/'', ReverseProxy (wiki_url\<lparr>URL.Path := []\<rparr>)),
         (''/admin/'', ReverseProxy (admin_url\<lparr>URL.Path := []\<rparr>))],
      secureCookie = example_securecookie_New ''hashkey'' ''blockkey12345678'',
      upstreamsConfig = [''/wiki/'' \<mapsto> wiki_upstream, ''/admin/'' \<mapsto> admin_upstream],
      config = example_config\<lparr>Upstreams := [wiki_upstream, admin_upstream]\<rparr>\<rparr>"

text \<open>A GET request for a path, with no cookie and no query.\<close>

definition example_request :: "string \<Rightarrow> Request" where
  "example_request p =
     \<lparr>Method = ''GET'', URL_Path = p, URL_RequestURI = p, Host = ''wiki.example.com:8080'',
      Cookies = [], ParseForm_err = None, Form = Map.empty\<rparr>"

text \<open>A request for the restricted upstream with the cookie of a user it does not list.\<close>

definition bob_request :: Request where
  "bob_request =
     example_request ''/admin/users''\<lparr>Cookies := [(''_slackauthproxy'', ''_slackauthproxy|bob'')]\<rparr>"

text \<open>
  The provider's redirect back to the gate with the code the example client redeems and
  the given \<^verbatim>\<open>state\<close>.
\<close>

definition callback_request :: "string \<Rightarrow> Request" where
  "callback_request state =
     example_request ''/oauth2/callback''
       \<lparr>Form := [''code'' \<mapsto> [''abc''], ''state'' \<mapsto> [state]]\<rparr>"



text \<open>
  The example server with a block key of 8 bytes (\<^verbatim>\<open>cookie_block_key: c2hvcnRrZXk=\<close>), which
  is no AES key: its codec fails every \<^verbatim>\<open>Encode\<close>.
\<close>

definition short_key_server :: OAuthServer where
  "short_key_server =
     example_server
       \<lparr>secureCookie := example_securecookie_New ''hashkey'' ''shortkey'',
        config := (config example_server)\<lparr>CookieBlockKey := ''c2hvcnRrZXk=''\<rparr>\<rparr>"

text \<open>
  A request for \<^verbatim>\<open>/oauth2/start\<close> with the form parameter \<^verbatim>\<open>rd\<close>.
\<close>

definition start_request :: "string \<Rightarrow> Request" where
  "start_request rd = example_request ''/oauth2/start''\<lparr>Form := [''rd'' \<mapsto> [rd]]\<rparr>"

text \<open>
  A request for the unrestricted upstream with a session cookie that does not decode.
\<close>

definition corrupt_cookie_request :: Request where
  "corrupt_cookie_request =
     example_request ''/wiki/page''\<lparr>Cookies := [(''_slackauthproxy'', ''garbage'')]\<rparr>"

section \<open>Properties\<close>

subsection \<open>Auxiliary facts\<close>

lemma example_hash_key: "StdEncoding_DecodeString ''aGFzaGtleQ=='' = Inr ''hashkey''"
  by code_simp


lemma example_short_key: "StdEncoding_DecodeString ''c2hvcnRrZXk='' = Inr ''shortkey''"
  by code_simp

lemma example_malformed_key:
  "StdEncoding_DecodeString ''not base64'' = Inl ''illegal base64 data''"
  by code_simp




lemma handleSignIn_trace:
  "handleSignIn s w req =
     SetCookieHeader (cleared_cookie s w req) #
     Render ''sign_in.html'' (SignInData ''Sign in'' (URL_RequestURI req)) #
     (case ExecuteTemplate w ''sign_in.html'' (SignInData ''Sign in'' (URL_RequestURI req)) of
        Some err \<Rightarrow> [HttpError err 500]
      | None \<Rightarrow> [])"
  by (simp add: handleSignIn_def ClearCookie_def renderTemplate_def cleared_cookie_def)

lemma handleSignIn_no_Forward: "Forward h \<notin> set (handleSignIn s w req)"
  by (simp add: handleSignIn_trace split: option.splits)


lemma ServeHTTP_gated:
  assumes "\<not> control_path (URL_Path req)" and "serveMux s req = (handler, pattern)"
  shows "ServeHTTP s w req =
           (case upstreamsConfig s pattern of
              Some u \<Rightarrow> gate s w req handler u
            | None \<Rightarrow>
                (case upstreamsConfig s (strings_TrimPrefix pattern ''/'') of
                   Some u \<Rightarrow> gate s w req handler u
                 | None \<Rightarrow> [HttpNotFound]))"
  using assms by (simp add: ServeHTTP_def control_path_def split: option.splits)

lemma strings_TrimPrefix_slash:
  "strings_TrimPrefix (CHR ''/'' # p) ''/'' = p"
  "\<not> prefix ''/'' p \<Longrightarrow> strings_TrimPrefix p ''/'' = p"
  by (simp_all add: strings_TrimPrefix_def)


lemma example_getCookieDomain:
  "getCookieDomain example_server (example_request p) = ''example.com''"
  by (simp add: getCookieDomain_def Let_def suffix_to_prefix example_server_def
      example_request_def example_config_def)

lemma example_not_control_path:
  "\<not> control_path ''/admin/users''" "\<not> control_path ''/wiki/page''"
  "\<not> control_path ''/unmapped/path''"
  by (simp_all add: control_path_def signInPath_def oauthStartPath_def oauthCallbackPath_def
      staticDir_def)

lemma example_mux:
  "serveMux example_server (example_request ''/admin/users''\<lparr>Cookies := cs\<rparr>) =
     (ReverseProxy (admin_url\<lparr>URL.Path := []\<rparr>), ''/admin/'')"
  "serveMux example_server (example_request ''/wiki/page''\<lparr>Cookies := cs\<rparr>) =
     (ReverseProxy (wiki_url\<lparr>URL.Path := []\<rparr>), ''/wiki/'')"
  "serveMux example_server (example_request ''/unmapped/path''\<lparr>Cookies := cs\<rparr>) =
     (NotFoundHandler, [])"
  by (simp_all add: example_server_def example_request_def example_ServeMux_Handler_def)

subsection \<open>The sign-in path\<close>

text \<open>
  Claim C8. For every request whose path is the sign-in path, the gate first issues a
  cookie of the session's name with an empty value and an expiry one hour before now,
  which is in the past, and then renders the sign-in page with the request URI of the
  request as the redirect target. Nothing follows but \<^verbatim>\<open>http.Error\<close> when the template
  fails.
\<close>

theorem sign_in_path_clears_session:
  assumes "URL_Path req = signInPath"
  shows "\<exists>rest. ServeHTTP s w req =
           SetCookieHeader
             \<lparr>Name = CookieKey s, Value = [], CookiePath = ''/'',
              Domain = getCookieDomain s req, Expires = time_Now w - Hour, HttpOnly = True\<rparr> #
           Render ''sign_in.html'' (SignInData ''Sign in'' (URL_RequestURI req)) # rest
         \<and> (rest = [] \<or> (\<exists>err. rest = [HttpError err 500]))
         \<and> time_Now w - Hour < time_Now w"
proof -
  have "ServeHTTP s w req = handleSignIn s w req"
    using assms by (simp add: ServeHTTP_def)
  moreover have "0 < Hour" by (simp add: Hour_def)
  ultimately show ?thesis
    by (cases "ExecuteTemplate w ''sign_in.html'' (SignInData ''Sign in'' (URL_RequestURI req))")
       (simp_all add: handleSignIn_trace cleared_cookie_def)
qed

text \<open>A request for \<^verbatim>\<open>/oauth2/sign_in\<close> at the example server.\<close>

theorem sign_in_path_clears_session_witness:
  "URL_Path (example_request ''/oauth2/sign_in'') = signInPath
   \<and> (\<exists>rest. ServeHTTP example_server example_env (example_request ''/oauth2/sign_in'') =
         SetCookieHeader
           \<lparr>Name = ''_slackauthproxy'', Value = [], CookiePath = ''/'',
            Domain = ''example.com'', Expires = 999 * Hour, HttpOnly = True\<rparr> #
         Render ''sign_in.html'' (SignInData ''Sign in'' ''/oauth2/sign_in'') # rest)"
proof -
  have p: "URL_Path (example_request ''/oauth2/sign_in'') = signInPath"
    by (simp add: example_request_def signInPath_def)
  have c: "CookieKey example_server = ''_slackauthproxy''"
    by (simp add: example_server_def)
  have t: "time_Now example_env - Hour = 999 * Hour"
    by (simp add: example_env_def)
  have u: "URL_RequestURI (example_request ''/oauth2/sign_in'') = ''/oauth2/sign_in''"
    by (simp add: example_request_def)
  show ?thesis
    using sign_in_path_clears_session [OF p, of example_server example_env]
    by (auto simp: p c t u example_getCookieDomain)
qed

subsection \<open>The gated paths\<close>

text \<open>
  Claim C5. For every gated request (its path is no control path and its upstream is
  found, at the first or at the second lookup) whose cookie decodes without error to an
  identity that the validator rejects for that upstream, the gate clears the cookie and
  renders the sign-in page, and it does not forward the request: no call of a handler's
  \<^verbatim>\<open>ServeHTTP\<close> is in the trace.
\<close>

theorem rejected_identity_is_shown_sign_in:
  assumes "\<not> control_path (URL_Path req)"
    and "serveMux s req = (handler, pattern)"
    and "upstreamsConfig s pattern = Some u \<or>
         upstreamsConfig s pattern = None \<and>
         upstreamsConfig s (strings_TrimPrefix pattern ''/'') = Some u"
    and "req_Cookie req (CookieKey s) = Some v"
    and "Decode (secureCookie s) (CookieKey s) v zero_Auth = (auth, None)"
    and "\<not> Validator s auth u"
  shows "ServeHTTP s w req = Validate auth u # handleSignIn s w req
       \<and> (\<exists>rest. handleSignIn s w req =
             SetCookieHeader (cleared_cookie s w req) #
             Render ''sign_in.html'' (SignInData ''Sign in'' (URL_RequestURI req)) # rest)
       \<and> (\<forall>h. Forward h \<notin> set (ServeHTTP s w req))"
proof -
  have "ServeHTTP s w req = gate s w req handler u"
    using assms(1-3) by (auto simp: ServeHTTP_gated)
  also have "\<dots> = Validate auth u # handleSignIn s w req"
    using assms(4-6) by (simp add: gate_def)
  finally have eq: "ServeHTTP s w req = Validate auth u # handleSignIn s w req" .
  show ?thesis
    by (simp add: eq handleSignIn_no_Forward) (simp add: handleSignIn_trace)
qed

text \<open>Bob holds a cookie that decodes, and the admin upstream lists only Alice.\<close>

theorem rejected_identity_is_shown_sign_in_witness:
  "ServeHTTP example_server example_env bob_request =
     [Validate (zero_Auth\<lparr>Username := ''bob''\<rparr>) admin_upstream,
      SetCookieHeader (cleared_cookie example_server example_env bob_request),
      Render ''sign_in.html'' (SignInData ''Sign in'' ''/admin/users'')]"
proof -
  have 1: "\<not> control_path (URL_Path bob_request)"
    by (simp add: bob_request_def example_request_def example_not_control_path)
  have 2: "serveMux example_server bob_request =
             (ReverseProxy (admin_url\<lparr>URL.Path := []\<rparr>), ''/admin/'')"
    by (simp add: bob_request_def example_mux)
  have 3: "upstreamsConfig example_server ''/admin/'' = Some admin_upstream"
    by (simp add: example_server_def)
  have 4: "req_Cookie bob_request (CookieKey example_server) = Some ''_slackauthproxy|bob''"
    by (simp add: req_Cookie_def bob_request_def example_request_def example_server_def)
  have 5: "Decode (secureCookie example_server) (CookieKey example_server)
             ''_slackauthproxy|bob'' zero_Auth = (zero_Auth\<lparr>Username := ''bob''\<rparr>, None)"
    by (simp add: example_server_def example_securecookie_New_def aes_key_size_def)
  have 6: "\<not> Validator example_server (zero_Auth\<lparr>Username := ''bob''\<rparr>) admin_upstream"
    by (simp add: example_server_def example_Validator_def admin_upstream_def zero_Auth_def)
  have 7: "ExecuteTemplate example_env n d = None" for n d
    by (simp add: example_env_def)
  have 8: "URL_RequestURI bob_request = ''/admin/users''"
    by (simp add: bob_request_def example_request_def)
  show ?thesis
    using rejected_identity_is_shown_sign_in [OF 1 2 disjI1 [OF 3] 4 5 6, of example_env]
    by (simp add: handleSignIn_trace 7 8)
qed



subsection \<open>Auxiliary facts on the OAuth handlers\<close>

lemma control_paths_differ:
  "signInPath \<noteq> oauthStartPath" "signInPath \<noteq> oauthCallbackPath"
  "oauthStartPath \<noteq> oauthCallbackPath"
  by (simp_all add: signInPath_def oauthStartPath_def oauthCallbackPath_def)

lemma ServeHTTP_callback:
  "URL_Path req = oauthCallbackPath \<Longrightarrow> ServeHTTP s w req = handleOAuthCallback s w req"
  using control_paths_differ by (simp add: ServeHTTP_def)


lemma ErrorPage_trace:
  "ErrorPage w code title message =
     WriteHeader code # Render ''error.html'' (ErrorData (itoa code @ '' '' @ title) message) #
     (case ExecuteTemplate w ''error.html'' (ErrorData (itoa code @ '' '' @ title) message) of
        Some err \<Rightarrow> [HttpError err 500]
      | None \<Rightarrow> [])"
  by (simp add: ErrorPage_def renderTemplate_def)

lemma ErrorPage_calls:
  "HttpRedirect t c \<notin> set (ErrorPage w code title message)"
  "SetCookieHeader k \<notin> set (ErrorPage w code title message)"
  "Exchange x \<notin> set (ErrorPage w code title message)"
  by (simp_all add: ErrorPage_trace split: option.splits)

lemma callback_after_identity:
  assumes "ParseForm_err req = None"
    and "Form_Get (Form req) ''error'' = []"
    and "RedeemCode (slackOauth s) (Form_Get (Form req) ''code'') = Inr access"
    and "Auth_Test w (Token access) = Inr auth"
    and "Encode (secureCookie s) (CookieKey s) auth = (encoded, err)"
  shows "handleOAuthCallback s w req =
           Exchange (Form_Get (Form req) ''code'') # IdentityLookup (Token access) #
           (case err of
              Some e \<Rightarrow> ErrorPage w 500 ''Internal Error'' ''Error encoding auth cookie''
            | None \<Rightarrow> []) @
           [SetCookieHeader
              \<lparr>Name = CookieKey s, Value = encoded, CookiePath = ''/'',
               Domain = getCookieDomain s req, Expires = time_Now w + 168 * Hour,
               HttpOnly = True\<rparr>,
            HttpRedirect
              (if Form_Get (Form req) ''state'' = [] then ''/''
               else Form_Get (Form req) ''state'') 302]"
  using assms by (simp add: handleOAuthCallback_def SetCookie_def Let_def)

lemma callback_redirect_target:
  assumes "HttpRedirect t c \<in> set (handleOAuthCallback s w req)"
  shows "t = (if Form_Get (Form req) ''state'' = [] then ''/''
              else Form_Get (Form req) ''state'')"
  using assms
  by (auto simp: handleOAuthCallback_def SetCookie_def Let_def ErrorPage_calls
      split: option.splits sum.splits prod.splits if_splits)

lemma same_origin_root: "same_origin_path ''/''"
  by (simp add: same_origin_path_def)

lemma same_origin_signInPath: "same_origin_path signInPath"
  by (simp add: same_origin_path_def signInPath_def)

lemma not_same_origin_Nil: "\<not> same_origin_path []"
  by (simp add: same_origin_path_def)



lemma short_key_server_constructed:
  "NewOauthServer example_lib example_client (example_config\<lparr>CookieBlockKey := ''c2hvcnRrZXk=''\<rparr>)
     = Inr short_key_server"
  by (simp add: NewOauthServer_def Let_def example_config_def example_lib_def decode64_def
      example_hash_key example_short_key example_server_def short_key_server_def
      wiki_upstream_def admin_upstream_def wiki_url_def admin_url_def)

lemma example_callback_facts:
  "URL_Path (callback_request st) = oauthCallbackPath"
  "ParseForm_err (callback_request st) = None"
  "Form_Get (Form (callback_request st)) ''error'' = []"
  "Form_Get (Form (callback_request st)) ''code'' = ''abc''"
  "Form_Get (Form (callback_request st)) ''state'' = st"
  "Host (callback_request st) = ''wiki.example.com'' @ '':8080''"
  by (simp_all add: callback_request_def example_request_def oauthCallbackPath_def Form_Get_def)

lemma example_exchange:
  "RedeemCode (slackOauth example_server) ''abc'' = Inr \<lparr>Token = ''xoxp-1''\<rparr>"
  "RedeemCode (slackOauth short_key_server) ''abc'' = Inr \<lparr>Token = ''xoxp-1''\<rparr>"
  "Auth_Test example_env ''xoxp-1'' = Inr alice"
  "ExecuteTemplate example_env n d = None"
  "time_Now example_env = 1000 * Hour"
  by (simp_all add: example_server_def short_key_server_def example_client_def example_env_def)

lemma example_encode:
  "Encode (secureCookie example_server) (CookieKey example_server) alice =
     (''_slackauthproxy|alice'', None)"
  "Encode (secureCookie short_key_server) (CookieKey short_key_server) alice =
     ([], Some ''crypto/aes: invalid key size'')"
  by (simp_all add: example_server_def short_key_server_def example_securecookie_New_def
      aes_key_size_def alice_def)

lemma example_callback_domain:
  "getCookieDomain example_server (callback_request st) = ''example.com''"
  "getCookieDomain short_key_server (callback_request st) = ''example.com''"
  by (simp_all add: getCookieDomain_def Let_def suffix_to_prefix example_server_def
      short_key_server_def callback_request_def example_request_def example_config_def)

lemma example_callback_trace:
  "ServeHTTP example_server example_env (callback_request st) =
     [Exchange ''abc'', IdentityLookup ''xoxp-1'',
      SetCookieHeader
        \<lparr>Name = ''_slackauthproxy'', Value = ''_slackauthproxy|alice'', CookiePath = ''/'',
         Domain = ''example.com'', Expires = 1168 * Hour, HttpOnly = True\<rparr>,
      HttpRedirect (if st = [] then ''/'' else st) 302]"
  using callback_after_identity [of "callback_request st" example_server
      "\<lparr>Token = ''xoxp-1''\<rparr>" example_env alice "''_slackauthproxy|alice''" None]
  by (simp add: ServeHTTP_callback example_callback_facts example_exchange example_encode
      example_callback_domain) (simp add: example_server_def)

lemma example_start_facts:
  "ParseForm_err (start_request rd) = None"
  "FormValue (start_request rd) ''rd'' = rd"
  by (simp_all add: start_request_def example_request_def FormValue_def Form_Get_def)

lemma GetRedirect_parsed:
  "ParseForm_err req = None \<Longrightarrow>
   GetRedirect req =
     (if FormValue req ''rd'' = [] \<or> FormValue req ''rd'' = signInPath then ''/''
      else FormValue req ''rd'', None)"
  by (simp add: GetRedirect_def Let_def)

subsection \<open>The redirect target\<close>

text \<open>
  Claim C2, as amended. The redirect target is the caller's value. When the form parses,
  \<^verbatim>\<open>GetRedirect\<close> returns the form value \<^verbatim>\<open>rd\<close> as it is, unless it is empty or the sign-in
  path, and then \<^verbatim>\<open>/\<close>; every redirect the callback issues goes to the \<^verbatim>\<open>state\<close> value as
  it is, unless it is empty, and then to \<^verbatim>\<open>/\<close>. So the target is a same-origin path exactly
  when the value the caller supplied is empty or is a same-origin path itself.
\<close>

theorem redirect_target_is_the_callers_value:
  "(ParseForm_err req = None \<longrightarrow>
      fst (GetRedirect req) =
        (if FormValue req ''rd'' = [] \<or> FormValue req ''rd'' = signInPath then ''/''
         else FormValue req ''rd'')
      \<and> same_origin_path (fst (GetRedirect req)) =
          (FormValue req ''rd'' = [] \<or> same_origin_path (FormValue req ''rd'')))
   \<and> (\<forall>t c. HttpRedirect t c \<in> set (handleOAuthCallback s w req) \<longrightarrow>
          t = (if Form_Get (Form req) ''state'' = [] then ''/''
               else Form_Get (Form req) ''state'')
          \<and> same_origin_path t =
              (Form_Get (Form req) ''state'' = [] \<or>
               same_origin_path (Form_Get (Form req) ''state'')))"
proof (intro conjI impI allI)
  assume p: "ParseForm_err req = None"
  show "fst (GetRedirect req) =
          (if FormValue req ''rd'' = [] \<or> FormValue req ''rd'' = signInPath then ''/''
           else FormValue req ''rd'')"
    by (simp add: GetRedirect_parsed [OF p])
  show "same_origin_path (fst (GetRedirect req)) =
          (FormValue req ''rd'' = [] \<or> same_origin_path (FormValue req ''rd''))"
    using same_origin_root same_origin_signInPath
    by (auto simp: GetRedirect_parsed [OF p])
next
  fix t c
  assume r: "HttpRedirect t c \<in> set (handleOAuthCallback s w req)"
  show "t = (if Form_Get (Form req) ''state'' = [] then ''/''
             else Form_Get (Form req) ''state'')"
    by (rule callback_redirect_target [OF r])
  then show "same_origin_path t =
          (Form_Get (Form req) ''state'' = [] \<or> same_origin_path (Form_Get (Form req) ''state''))"
    using same_origin_root by auto
qed

text \<open>
  A start and a callback with the target \<^verbatim>\<open>/dashboard\<close>.
\<close>

theorem redirect_target_is_the_callers_value_witness:
  "fst (GetRedirect (start_request ''/dashboard'')) = ''/dashboard''
   \<and> same_origin_path (fst (GetRedirect (start_request ''/dashboard'')))
   \<and> HttpRedirect ''/dashboard'' 302 \<in>
       set (handleOAuthCallback example_server example_env (callback_request ''/dashboard''))"
proof -
  have d: "same_origin_path ''/dashboard''"
    by (simp add: same_origin_path_def)
  have n: "''/dashboard'' \<noteq> signInPath"
    by (simp add: signInPath_def)
  have r: "HttpRedirect ''/dashboard'' 302 \<in>
       set (handleOAuthCallback example_server example_env (callback_request ''/dashboard''))"
    using example_callback_trace [of "''/dashboard''"]
    by (simp add: ServeHTTP_callback example_callback_facts)
  show ?thesis
    using redirect_target_is_the_callers_value
      [of "start_request ''/dashboard''" example_server example_env] d n r
    by (simp add: example_start_facts)
qed

text \<open>
  Claim C2 as stated fails: with \<^verbatim>\<open>rd\<close>, or \<^verbatim>\<open>state\<close>, an absolute URL of another origin,
  \<^verbatim>\<open>GetRedirect\<close> returns that URL and the callback redirects to it.
\<close>

theorem external_redirect_target_counterexample:
  "fst (GetRedirect (start_request ''https://evil.example/'')) = ''https://evil.example/''
   \<and> HttpRedirect ''https://evil.example/'' 302 \<in>
       set (ServeHTTP example_server example_env (callback_request ''https://evil.example/''))
   \<and> \<not> same_origin_path ''https://evil.example/''"
proof -
  have "''https://evil.example/'' \<noteq> signInPath"
    by (simp add: signInPath_def)
  then have "fst (GetRedirect (start_request ''https://evil.example/'')) = ''https://evil.example/''"
    by (simp add: GetRedirect_parsed example_start_facts)
  moreover have "\<not> same_origin_path ''https://evil.example/''"
    by (simp add: same_origin_path_def)
  ultimately show ?thesis
    by (simp add: example_callback_trace)
qed

text \<open>
  Claim C4, as amended. When the form parses, \<^verbatim>\<open>GetRedirect\<close> resolves an \<^verbatim>\<open>rd\<close> that is
  absent (empty) or equal to the sign-in path to \<^verbatim>\<open>/\<close>. The callback, once the code is
  redeemed and the identity fetched, ends with a redirect to \<^verbatim>\<open>/\<close> when \<^verbatim>\<open>state\<close> is absent
  (empty) and to the \<^verbatim>\<open>state\<close> value as it is otherwise, the sign-in path included.
\<close>

theorem redirect_default_is_root:
  "(ParseForm_err req = None \<and> (FormValue req ''rd'' = [] \<or> FormValue req ''rd'' = signInPath)
      \<longrightarrow> GetRedirect req = (''/'', None))
   \<and> (ParseForm_err req = None \<and> Form_Get (Form req) ''error'' = [] \<and>
       RedeemCode (slackOauth s) (Form_Get (Form req) ''code'') = Inr access \<and>
       Auth_Test w (Token access) = Inr auth
      \<longrightarrow> last (handleOAuthCallback s w req) =
            HttpRedirect
              (if Form_Get (Form req) ''state'' = [] then ''/''
               else Form_Get (Form req) ''state'') 302)"
proof (intro conjI impI)
  assume "ParseForm_err req = None \<and> (FormValue req ''rd'' = [] \<or> FormValue req ''rd'' = signInPath)"
  then show "GetRedirect req = (''/'', None)"
    by (auto simp: GetRedirect_parsed)
next
  assume a: "ParseForm_err req = None \<and> Form_Get (Form req) ''error'' = [] \<and>
       RedeemCode (slackOauth s) (Form_Get (Form req) ''code'') = Inr access \<and>
       Auth_Test w (Token access) = Inr auth"
  obtain encoded err where e: "Encode (secureCookie s) (CookieKey s) auth = (encoded, err)"
    by (cases "Encode (secureCookie s) (CookieKey s) auth")
  show "last (handleOAuthCallback s w req) =
          HttpRedirect
            (if Form_Get (Form req) ''state'' = [] then ''/''
             else Form_Get (Form req) ''state'') 302"
    using a by (simp add: callback_after_identity [OF _ _ _ _ e])
qed

text \<open>
  A start with \<^verbatim>\<open>rd\<close> the sign-in path and a callback with no \<^verbatim>\<open>state\<close>.
\<close>

theorem redirect_default_is_root_witness:
  "GetRedirect (start_request signInPath) = (''/'', None)
   \<and> last (handleOAuthCallback example_server example_env (callback_request [])) =
       HttpRedirect ''/'' 302"
  using redirect_default_is_root
    [of "start_request signInPath" example_server "\<lparr>Token = ''xoxp-1''\<rparr>" example_env alice]
    redirect_default_is_root
    [of "callback_request []" example_server "\<lparr>Token = ''xoxp-1''\<rparr>" example_env alice]
  by (simp add: example_start_facts example_callback_facts example_exchange)

text \<open>
  Claim C4 as stated fails in the callback: a \<^verbatim>\<open>state\<close> equal to the sign-in path is not
  resolved to \<^verbatim>\<open>/\<close>, the redirect goes to the sign-in path.
\<close>

theorem callback_state_sign_in_counterexample:
  "Form_Get (Form (callback_request signInPath)) ''state'' = signInPath
   \<and> last (ServeHTTP example_server example_env (callback_request signInPath)) =
       HttpRedirect ''/oauth2/sign_in'' 302
   \<and> ''/oauth2/sign_in'' \<noteq> ''/''"
  by (simp add: example_callback_trace example_callback_facts) (simp add: signInPath_def)

subsection \<open>The OAuth callback\<close>







subsection \<open>A cookie that does not decode\<close>

text \<open>
  Whatever error \<^verbatim>\<open>Decode\<close> returns, the validator is asked about the identity the call
  left behind, and its answer alone decides.
\<close>

lemma gate_drops_decode_error:
  assumes "req_Cookie req (CookieKey s) = Some v"
    and "Decode (secureCookie s) (CookieKey s) v zero_Auth = (auth, err)"
    and "Validator s auth u"
  shows "gate s w req handler u = [Validate auth u, Forward handler]"
  using assms by (simp add: gate_def)

text \<open>
  Claim C1 fails on the code. \<^verbatim>\<open>ServeHTTP\<close> drops the error of \<^verbatim>\<open>Decode\<close> (line 131) and
  hands the \<^verbatim>\<open>slack.Auth\<close> it allocated, here still the zero value, to the validator. The
  validator of an upstream with no restriction accepts it, and the request is forwarded,
  while the same request with no cookie is shown the sign-in page.
\<close>

theorem corrupt_cookie_reaches_validator_and_upstream:
  "snd (Decode (secureCookie example_server) (CookieKey example_server) ''garbage'' zero_Auth)
     = Some ''securecookie: the value is not valid''
   \<and> ServeHTTP example_server example_env corrupt_cookie_request =
       [Validate zero_Auth wiki_upstream, Forward (ReverseProxy (wiki_url\<lparr>URL.Path := []\<rparr>))]
   \<and> ServeHTTP example_server example_env (example_request ''/wiki/page'') =
       [SetCookieHeader (cleared_cookie example_server example_env (example_request ''/wiki/page'')),
        Render ''sign_in.html'' (SignInData ''Sign in'' ''/wiki/page'')]"
proof -
  have dec: "Decode (secureCookie example_server) (CookieKey example_server) ''garbage'' zero_Auth
      = (zero_Auth, Some ''securecookie: the value is not valid'')"
    by (simp add: example_server_def example_securecookie_New_def)
  have ok: "Validator example_server zero_Auth wiki_upstream"
    by (simp add: example_server_def example_Validator_def wiki_upstream_def)
  have up: "upstreamsConfig example_server ''/wiki/'' = Some wiki_upstream"
    by (simp add: example_server_def)
  have ck: "req_Cookie corrupt_cookie_request (CookieKey example_server) = Some ''garbage''"
    "req_Cookie (example_request ''/wiki/page'') (CookieKey example_server) = None"
    by (simp_all add: req_Cookie_def corrupt_cookie_request_def example_request_def
        example_server_def)
  have mx: "serveMux example_server corrupt_cookie_request =
              (ReverseProxy (wiki_url\<lparr>URL.Path := []\<rparr>), ''/wiki/'')"
    "serveMux example_server (example_request ''/wiki/page'') =
              (ReverseProxy (wiki_url\<lparr>URL.Path := []\<rparr>), ''/wiki/'')"
    using example_mux(2) [of "[(''_slackauthproxy'', ''garbage'')]"] example_mux(2) [of "[]"]
    by (simp_all add: corrupt_cookie_request_def example_request_def)
  have np: "\<not> control_path (URL_Path corrupt_cookie_request)"
    "\<not> control_path (URL_Path (example_request ''/wiki/page''))"
    by (simp_all add: corrupt_cookie_request_def example_request_def example_not_control_path)
  have 1: "ServeHTTP example_server example_env corrupt_cookie_request =
       [Validate zero_Auth wiki_upstream, Forward (ReverseProxy (wiki_url\<lparr>URL.Path := []\<rparr>))]"
    by (simp add: ServeHTTP_gated [OF np(1) mx(1)] up gate_drops_decode_error [OF ck(1) dec ok])
  have 2: "ServeHTTP example_server example_env (example_request ''/wiki/page'') =
       [SetCookieHeader (cleared_cookie example_server example_env (example_request ''/wiki/page'')),
        Render ''sign_in.html'' (SignInData ''Sign in'' ''/wiki/page'')]"
    by (simp add: ServeHTTP_gated [OF np(2) mx(2)] up gate_def ck handleSignIn_trace
        example_exchange) (simp add: example_request_def)
  show ?thesis
    by (simp add: dec 1 2)
qed

subsection \<open>Construction\<close>

lemma decode64_Inl:
  "base64_DecodeString lib k = Inl e \<Longrightarrow> \<exists>msg. decode64 lib name k = Inl (Fatal msg)"
  by (simp add: decode64_def)

lemma decode64_Inr:
  "decode64 lib name k = Inr bs \<Longrightarrow> base64_DecodeString lib k = Inr bs"
  by (simp add: decode64_def split: sum.splits)

lemma decode64_Fatal:
  "decode64 lib name k = Inl a \<Longrightarrow> \<exists>msg. a = Fatal msg"
  by (auto simp: decode64_def split: sum.splits)

lemma example_registration:
  "register_upstreams (Upstreams example_config) ([], Map.empty) =
     Inr ([(''/wiki/'', ReverseProxy (wiki_url\<lparr>URL.Path := []\<rparr>)),
           (''/admin/'', ReverseProxy (admin_url\<lparr>URL.Path := []\<rparr>))],
          [''/wiki/'' \<mapsto> wiki_upstream, ''/admin/'' \<mapsto> admin_upstream])"
  by (simp add: example_config_def Let_def wiki_url_def admin_url_def wiki_upstream_def
      admin_upstream_def)

text \<open>
  Claim C10. If the base64 decoding of the cookie hash key or of the cookie block key
  fails, \<^verbatim>\<open>NewOauthServer\<close> returns no server: the construction aborts, and, when the
  upstreams were registered without a panic, it aborts in \<^verbatim>\<open>log.Fatalf\<close>. A server that is
  returned has a codec made of the two decoded keys.
\<close>

theorem malformed_key_is_fatal:
  "((\<exists>e. base64_DecodeString lib (CookieHashKey cfg) = Inl e) \<or>
    (\<exists>e. base64_DecodeString lib (CookieBlockKey cfg) = Inl e)
      \<longrightarrow> (\<exists>a. NewOauthServer lib oauthClient cfg = Inl a)
        \<and> (\<forall>r. register_upstreams (Upstreams cfg) ([], Map.empty) = Inr r
              \<longrightarrow> (\<exists>msg. NewOauthServer lib oauthClient cfg = Inl (Fatal msg))))
   \<and> (\<forall>s. NewOauthServer lib oauthClient cfg = Inr s
        \<longrightarrow> (\<exists>hashKey blockKey.
               base64_DecodeString lib (CookieHashKey cfg) = Inr hashKey \<and>
               base64_DecodeString lib (CookieBlockKey cfg) = Inr blockKey \<and>
               secureCookie s = securecookie_New lib hashKey blockKey))"
proof (intro conjI impI allI)
  assume bad: "(\<exists>e. base64_DecodeString lib (CookieHashKey cfg) = Inl e) \<or>
    (\<exists>e. base64_DecodeString lib (CookieBlockKey cfg) = Inl e)"
  then have "(\<exists>msg. decode64 lib ''cookie_hash_key'' (CookieHashKey cfg) = Inl (Fatal msg)) \<or>
    (\<exists>msg. decode64 lib ''cookie_block_key'' (CookieBlockKey cfg) = Inl (Fatal msg))"
    using decode64_Inl by blast
  then show "\<exists>a. NewOauthServer lib oauthClient cfg = Inl a"
    by (auto simp: NewOauthServer_def split: sum.splits prod.splits)
  fix r
  assume "register_upstreams (Upstreams cfg) ([], Map.empty) = Inr r"
  with \<open>(\<exists>msg. decode64 lib ''cookie_hash_key'' (CookieHashKey cfg) = Inl (Fatal msg)) \<or>
    (\<exists>msg. decode64 lib ''cookie_block_key'' (CookieBlockKey cfg) = Inl (Fatal msg))\<close>
  show "\<exists>msg. NewOauthServer lib oauthClient cfg = Inl (Fatal msg)"
    by (cases "decode64 lib ''cookie_hash_key'' (CookieHashKey cfg)")
       (auto simp: NewOauthServer_def split: prod.splits dest: decode64_Fatal)
next
  fix s
  assume "NewOauthServer lib oauthClient cfg = Inr s"
  then show "\<exists>hashKey blockKey.
               base64_DecodeString lib (CookieHashKey cfg) = Inr hashKey \<and>
               base64_DecodeString lib (CookieBlockKey cfg) = Inr blockKey \<and>
               secureCookie s = securecookie_New lib hashKey blockKey"
    by (auto simp: NewOauthServer_def split: sum.splits prod.splits dest!: decode64_Inr)
qed

text \<open>
  The example configuration with a block key that is not base64.
\<close>

theorem malformed_key_is_fatal_witness:
  "base64_DecodeString example_lib (CookieBlockKey (example_config\<lparr>CookieBlockKey := ''not base64''\<rparr>))
     = Inl ''illegal base64 data''
   \<and> (\<exists>msg. NewOauthServer example_lib example_client
               (example_config\<lparr>CookieBlockKey := ''not base64''\<rparr>) = Inl (Fatal msg))"
proof -
  have b: "base64_DecodeString example_lib
             (CookieBlockKey (example_config\<lparr>CookieBlockKey := ''not base64''\<rparr>))
           = Inl ''illegal base64 data''"
    by (simp add: example_lib_def example_malformed_key)
  have r: "register_upstreams (Upstreams (example_config\<lparr>CookieBlockKey := ''not base64''\<rparr>))
             ([], Map.empty) =
           Inr ([(''/wiki/'', ReverseProxy (wiki_url\<lparr>URL.Path := []\<rparr>)),
                 (''/admin/'', ReverseProxy (admin_url\<lparr>URL.Path := []\<rparr>))],
                [''/wiki/'' \<mapsto> wiki_upstream, ''/admin/'' \<mapsto> admin_upstream])"
    using example_registration by simp
  show ?thesis
    using malformed_key_is_fatal
      [of example_lib "example_config\<lparr>CookieBlockKey := ''not base64''\<rparr>" example_client]
      b r
    by auto
qed

end
